theory Spec2Isabelle
  imports Main "HOL-Library.Word"
begin

unbundle bit_operations_syntax

section \<open>Raw disco capture on Linux: \<open>wgengine/magicsock/magicsock_linux.go\<close>\<close>

type_synonym byte = "8 word"

definition udpHeaderSize :: nat where
  "udpHeaderSize = 8"

subsection \<open>Go slices and \<open>encoding/binary\<close>\<close>

text \<open>
  \<open>b[lo:hi]\<close> of Go: the bytes from \<open>lo\<close> up to \<open>hi\<close>; a run-time panic unless
  \<open>0 \<le> lo \<le> hi \<le> len(b)\<close>. \<open>None\<close> is the panic. The bounds are Go \<open>int\<close>s.
\<close>

definition slice :: "byte list \<Rightarrow> int \<Rightarrow> int \<Rightarrow> byte list option" where
  "slice b lo hi =
     (if 0 \<le> lo \<and> lo \<le> hi \<and> hi \<le> int (length b)
      then Some (take (nat hi - nat lo) (drop (nat lo) b))
      else None)"

text \<open>
  \<open>binary.BigEndian.Uint16(b)\<close> is \<open>uint16(b[1]) | uint16(b[0])<<8\<close> and
  \<open>binary.BigEndian.Uint32(b)\<close> is
  \<open>uint32(b[3]) | uint32(b[2])<<8 | uint32(b[1])<<16 | uint32(b[0])<<24\<close>;
  both panic (\<open>None\<close>) on a slice that is too short.
\<close>

fun BigEndian_Uint16 :: "byte list \<Rightarrow> 16 word option" where
  "BigEndian_Uint16 (b0 # b1 # _) = Some (ucast b1 OR push_bit 8 (ucast b0))"
| "BigEndian_Uint16 _ = None"

fun BigEndian_Uint32 :: "byte list \<Rightarrow> 32 word option" where
  "BigEndian_Uint32 (b0 # b1 # b2 # b3 # _) =
     Some (ucast b3 OR push_bit 8 (ucast b2) OR push_bit 16 (ucast b1) OR push_bit 24 (ucast b0))"
| "BigEndian_Uint32 _ = None"

subsection \<open>The filter instructions and their evaluation\<close>

text \<open>
  The instructions of \<open>golang.org/x/net/bpf\<close> that the two programs use, with the
  fields in the order the source writes them: \<open>LoadAbsolute{Off, Size}\<close>,
  \<open>LoadIndirect{Off, Size}\<close>, \<open>LoadMemShift{Off}\<close>,
  \<open>JumpIf{Cond, Val, SkipTrue, SkipFalse}\<close>, \<open>RetConstant{Val}\<close>. Skip counts are
  \<open>uint8\<close>, so a jump never goes backwards.
\<close>

datatype JumpTest =
    JumpEqual | JumpNotEqual | JumpGreaterThan | JumpLessThan
  | JumpGreaterOrEqual | JumpLessOrEqual | JumpBitsSet | JumpBitsNotSet

datatype Instruction =
    LoadAbsolute nat nat
  | LoadIndirect nat nat
  | LoadMemShift nat
  | JumpIf JumpTest "32 word" nat nat
  | RetConstant "32 word"

text \<open>How a run of a program ends.\<close>

datatype halt =
    Ret "32 word"   \<comment> \<open>a return instruction, with its value\<close>
  | LoadOutOfBounds \<comment> \<open>a load reached past the end of the packet: the verdict is 0\<close>
  | InvalidLoadSize \<comment> \<open>a load of a size other than 1, 2 or 4\<close>
  | FellOff         \<comment> \<open>the instruction index left the program\<close>

datatype load = Loaded "32 word" | OutOfBounds | BadSize

text \<open>
  Modelled from the spec: the evaluator of the instruction set is not part of the
  repository (the kernel runs the program; \<open>golang.org/x/net/bpf\<close> holds the reference
  virtual machine). The definitions below follow the instruction semantics the
  specification lists (load at an absolute offset, load at an offset indirected by the
  register X, load of the IP header length into X, conditional jump with separate skip
  counts, return) with the rule of classic BPF for a load that does not fit the
  packet: the run stops there and the packet is dropped.
\<close>

definition inBounds :: "nat \<Rightarrow> nat \<Rightarrow> nat \<Rightarrow> bool" where
  "inBounds inLen offset sz = (offset + sz \<le> inLen)"

definition loadCommon :: "byte list \<Rightarrow> nat \<Rightarrow> nat \<Rightarrow> load" where
  "loadCommon inp offset sz =
     (if \<not> inBounds (length inp) offset sz then OutOfBounds
      else if sz = 1 then Loaded (ucast (inp ! offset))
      else if sz = 2 then
        (case BigEndian_Uint16 (take sz (drop offset inp)) of
           Some v \<Rightarrow> Loaded (ucast v) | None \<Rightarrow> OutOfBounds)
      else if sz = 4 then
        (case BigEndian_Uint32 (take sz (drop offset inp)) of
           Some v \<Rightarrow> Loaded v | None \<Rightarrow> OutOfBounds)
      else BadSize)"

definition loadAbsolute :: "nat \<Rightarrow> nat \<Rightarrow> byte list \<Rightarrow> load" where
  "loadAbsolute off sz inp = loadCommon inp off sz"

definition loadIndirect :: "nat \<Rightarrow> nat \<Rightarrow> byte list \<Rightarrow> 32 word \<Rightarrow> load" where
  "loadIndirect off sz inp regX = loadCommon inp (off + unat regX) sz"

text \<open>\<open>LoadMemShift\<close>: the low four bits of the byte at \<open>Off\<close>, times four.\<close>

definition loadMemShift :: "nat \<Rightarrow> byte list \<Rightarrow> load" where
  "loadMemShift off inp =
     (if \<not> inBounds (length inp) off 1 then OutOfBounds
      else Loaded (ucast (inp ! off AND 0x0f) * 4))"

fun jumpTest :: "JumpTest \<Rightarrow> 32 word \<Rightarrow> 32 word \<Rightarrow> bool" where
  "jumpTest JumpEqual regA val = (regA = val)"
| "jumpTest JumpNotEqual regA val = (regA \<noteq> val)"
| "jumpTest JumpGreaterThan regA val = (regA > val)"
| "jumpTest JumpLessThan regA val = (regA < val)"
| "jumpTest JumpGreaterOrEqual regA val = (regA \<ge> val)"
| "jumpTest JumpLessOrEqual regA val = (regA \<le> val)"
| "jumpTest JumpBitsSet regA val = (regA AND val \<noteq> 0)"
| "jumpTest JumpBitsNotSet regA val = (regA AND val = 0)"

definition jumpIf :: "JumpTest \<Rightarrow> 32 word \<Rightarrow> nat \<Rightarrow> nat \<Rightarrow> 32 word \<Rightarrow> nat" where
  "jumpIf cond val skipTrue skipFalse regA =
     (if jumpTest cond regA val then skipTrue else skipFalse)"

text \<open>
  The run from instruction \<open>i\<close> with registers A and X: the indices of the instructions
  executed, in order, and how the run ended. The index only grows, which is the
  termination argument.
\<close>

function run_from ::
  "Instruction list \<Rightarrow> byte list \<Rightarrow> nat \<Rightarrow> 32 word \<Rightarrow> 32 word \<Rightarrow> nat list \<times> halt" where
  "run_from prog inp i regA regX =
     (if i < length prog then
        (case prog ! i of
           JumpIf cond val skipTrue skipFalse \<Rightarrow>
             (let (pcs, h) = run_from prog inp (i + jumpIf cond val skipTrue skipFalse regA + 1) regA regX
              in (i # pcs, h))
         | LoadAbsolute off sz \<Rightarrow>
             (case loadAbsolute off sz inp of
                Loaded v \<Rightarrow> (let (pcs, h) = run_from prog inp (i + 1) v regX in (i # pcs, h))
              | OutOfBounds \<Rightarrow> ([i], LoadOutOfBounds)
              | BadSize \<Rightarrow> ([i], InvalidLoadSize))
         | LoadIndirect off sz \<Rightarrow>
             (case loadIndirect off sz inp regX of
                Loaded v \<Rightarrow> (let (pcs, h) = run_from prog inp (i + 1) v regX in (i # pcs, h))
              | OutOfBounds \<Rightarrow> ([i], LoadOutOfBounds)
              | BadSize \<Rightarrow> ([i], InvalidLoadSize))
         | LoadMemShift off \<Rightarrow>
             (case loadMemShift off inp of
                Loaded v \<Rightarrow> (let (pcs, h) = run_from prog inp (i + 1) regA v in (i # pcs, h))
              | OutOfBounds \<Rightarrow> ([i], LoadOutOfBounds)
              | BadSize \<Rightarrow> ([i], InvalidLoadSize))
         | RetConstant val \<Rightarrow> ([i], Ret val))
      else ([], FellOff))"
  by pat_completeness auto
termination
  by (relation "measure (\<lambda>(prog, inp, i, regA, regX). length prog - i)") auto

declare run_from.simps [simp del]

definition run :: "Instruction list \<Rightarrow> byte list \<Rightarrow> nat list \<times> halt" where
  "run prog inp = run_from prog inp 0 0 0"

text \<open>The verdict: the value returned, and 0 when the run ended any other way.\<close>

definition Run :: "Instruction list \<Rightarrow> byte list \<Rightarrow> 32 word" where
  "Run prog inp = (case snd (run prog inp) of Ret v \<Rightarrow> v | _ \<Rightarrow> 0)"

subsection \<open>The two programs\<close>

text \<open>
  \<open>discoMagic1\<close> and \<open>discoMagic2\<close> are declared in another file of the package; the
  programs take them as parameters: the 4-byte and the 2-byte part of the marker.
\<close>

definition magicsockFilterV4 :: "32 word \<Rightarrow> 16 word \<Rightarrow> Instruction list" where
  "magicsockFilterV4 discoMagic1 discoMagic2 =
     [ LoadAbsolute 6 2,
       JumpIf JumpBitsSet 0x2000 7 0,
       JumpIf JumpBitsSet 0x1fff 6 0,
       LoadMemShift 0,
       LoadIndirect udpHeaderSize 4,
       JumpIf JumpEqual discoMagic1 0 3,
       LoadIndirect (udpHeaderSize + 4) 2,
       JumpIf JumpEqual (ucast discoMagic2) 0 1,
       RetConstant 0xFFFFFFFF,
       RetConstant 0x0 ]"

definition magicsockFilterV6 :: "32 word \<Rightarrow> 16 word \<Rightarrow> Instruction list" where
  "magicsockFilterV6 discoMagic1 discoMagic2 =
     [ LoadAbsolute udpHeaderSize 4,
       JumpIf JumpEqual discoMagic1 0 3,
       LoadAbsolute (udpHeaderSize + 4) 2,
       JumpIf JumpEqual (ucast discoMagic2) 0 1,
       RetConstant 0xFFFFFFFF,
       RetConstant 0x0 ]"

subsection \<open>What the specification says of a packet\<close>

text \<open>The \<open>n\<close> bytes at offset \<open>off\<close> of a buffer, when the buffer has them.\<close>

definition segment :: "byte list \<Rightarrow> nat \<Rightarrow> nat \<Rightarrow> byte list option" where
  "segment buf off n = (if off + n \<le> length buf then Some (take n (drop off buf)) else None)"

text \<open>The bytes of the two magic values, most significant first.\<close>

definition magic1_bytes :: "32 word \<Rightarrow> byte list" where
  "magic1_bytes m = [ucast (drop_bit 24 m), ucast (drop_bit 16 m), ucast (drop_bit 8 m), ucast m]"

definition magic2_bytes :: "16 word \<Rightarrow> byte list" where
  "magic2_bytes m = [ucast (drop_bit 8 m), ucast m]"

text \<open>Both marker segments match at offset \<open>off\<close>: 4 bytes there, 2 bytes after them.\<close>

definition marker_at :: "32 word \<Rightarrow> 16 word \<Rightarrow> byte list \<Rightarrow> nat \<Rightarrow> bool" where
  "marker_at m1 m2 buf off \<longleftrightarrow>
     segment buf off 4 = Some (magic1_bytes m1) \<and> segment buf (off + 4) 2 = Some (magic2_bytes m2)"

text \<open>
  The IPv4 header fields the filter reads: the header length in bytes (low four bits of
  byte 0, in 32-bit words) and the 16 bits of bytes 6-7 (flags and fragment offset).
\<close>

definition headerLength :: "byte list \<Rightarrow> nat" where
  "headerLength buf = (case buf of [] \<Rightarrow> 0 | b # _ \<Rightarrow> 4 * unat (b AND 0x0f))"

definition flagsAndOffset :: "byte list \<Rightarrow> 16 word option" where
  "flagsAndOffset buf =
     (if 8 \<le> length buf then Some (push_bit 8 (ucast (buf ! 6)) OR ucast (buf ! 7)) else None)"

definition moreFragments :: "byte list \<Rightarrow> bool" where
  "moreFragments buf = (case flagsAndOffset buf of Some f \<Rightarrow> f AND 0x2000 \<noteq> 0 | None \<Rightarrow> False)"

definition fragmentOffsetNonZero :: "byte list \<Rightarrow> bool" where
  "fragmentOffsetNonZero buf = (case flagsAndOffset buf of Some f \<Rightarrow> f AND 0x1fff \<noteq> 0 | None \<Rightarrow> False)"

text \<open>An unfragmented IPv4 packet: bytes 6-7 are there, and neither test fires.\<close>

definition unfragmented :: "byte list \<Rightarrow> bool" where
  "unfragmented buf \<longleftrightarrow>
     flagsAndOffset buf \<noteq> None \<and> \<not> moreFragments buf \<and> \<not> fragmentOffsetNonZero buf"

subsection \<open>Installing the filter: \<open>setBPF\<close>\<close>

text \<open>
  Errors are values. \<open>errors.Is(err, net.ErrClosed)\<close> is the test \<open>err = ErrClosed\<close>.
\<close>

datatype error = ErrClosed | ErrDeadlineExceeded | Errno string

text \<open>A function either panics or returns.\<close>

datatype 'a result = Panics | Returns 'a

text \<open>
  What the system answers to the three calls of \<open>setBPF\<close>: \<open>SyscallConn()\<close>,
  \<open>sc.Control(f)\<close>, and the \<open>SO_ATTACH_FILTER\<close> \<open>setsockopt\<close> that \<open>f\<close> makes
  (\<open>None\<close> is the nil error).
\<close>

record setBPF_env =
  SyscallConn_err :: "error option"
  Control_err :: "error option"
  SetsockoptSockFprog_err :: "error option"

text \<open>\<open>bpf.RawInstruction\<close>, what \<open>bpf.Assemble\<close> produces.\<close>

record RawInstruction =
  Op :: "16 word"
  Jt :: byte
  Jf :: byte
  K :: "32 word"

text \<open>
  \<open>&filter[0]\<close> panics on an empty filter. The last test of the source returns \<open>err\<close>,
  the result of \<open>Control\<close>, which is nil there; \<open>setErr\<close> is only tested.
\<close>

definition setBPF :: "setBPF_env \<Rightarrow> RawInstruction list \<Rightarrow> error option result" where
  "setBPF e filter' =
     (case SyscallConn_err e of
        Some err \<Rightarrow> Returns (Some err)
      | None \<Rightarrow>
          if filter' = [] then Panics
          else
            (let setErr = SetsockoptSockFprog_err e;
                 err = Control_err e
             in if err \<noteq> None then Returns err
                else if setErr \<noteq> None then Returns err
                else Returns None))"

subsection \<open>Reads from the raw socket\<close>

text \<open>
  One \<open>pc.ReadFrom(buf[:])\<close>: the count \<open>n\<close>, the IP of the \<open>*net.IPAddr\<close> source, the
  error, and the contents of the array \<open>buf\<close> (\<open>[1500]byte\<close>) after the call.
\<close>

record read =
  rd_n :: int
  rd_src :: "byte list"
  rd_err :: "error option"
  rd_buf :: "byte list"

definition testDiscoPacket :: "byte list" where
  "testDiscoPacket =
     [ 0x54, 0x53, 0xf0, 0x9f, 0x92, 0xac,
       0x0, 0x0, 0x0, 0x0, 0x0, 0x0, 0x0, 0x0,
       0x0, 0x0, 0x0, 0x0, 0x0, 0x0, 0x0, 0x0,
       0x0, 0x0, 0x0, 0x0, 0x0, 0x0, 0x0, 0x0,
       0x0, 0x0, 0x0, 0x0, 0x0, 0x0, 0x0, 0x0,
       0x0, 0x0, 0x0, 0x0, 0x0, 0x0, 0x0, 0x0,
       0x0, 0x0, 0x0, 0x0, 0x0, 0x0, 0x0, 0x0,
       0x0, 0x0, 0x0, 0x0, 0x0, 0x0, 0x0, 0x0 ]"

subsection \<open>The receive loop: \<open>receiveDisco\<close>\<close>

text \<open>\<open>netip.AddrFromSlice\<close>: an address from 4 or from 16 bytes, nothing else.\<close>

datatype Addr = AddrFrom4 "byte list" | AddrFrom16 "byte list"

definition AddrFromSlice :: "byte list \<Rightarrow> Addr option" where
  "AddrFromSlice s =
     (if length s = 4 then Some (AddrFrom4 s)
      else if length s = 16 then Some (AddrFrom16 s)
      else None)"

fun Is4 :: "Addr \<Rightarrow> bool" where
  "Is4 (AddrFrom4 _) = True"
| "Is4 (AddrFrom16 _) = False"

datatype AddrPort = AddrPortFrom Addr "16 word"

datatype NodePublic = NodePublic "byte list"

text \<open>\<open>key.NodePublic{}\<close>, the zero key.\<close>

definition zeroNodePublic :: NodePublic where
  "zeroNodePublic = NodePublic (replicate 32 0)"

text \<open>The messages of \<open>c.logf\<close> and of \<open>c.dlogf\<close>, with their arguments.\<close>

datatype log_entry =
    LogRawReaderFailed error
  | LogUnexpectedPort0
  | LogNotAnIP "byte list"

datatype dlog_entry =
    DropAcceptPort0 "16 word"
  | DropPort "16 word"

text \<open>
  The \<open>Conn\<close> as the loop sees it: the ports of the two UDP sockets, the two counters,
  and the calls made so far to the collaborators (\<open>Port()\<close> of \<open>pconn6\<close> is recorded as
  \<open>True\<close>, of \<open>pconn4\<close> as \<open>False\<close>).
\<close>

record Conn =
  pconn4_port :: "16 word"
  pconn6_port :: "16 word"
  metricRecvDiscoPacketIPv4 :: nat
  metricRecvDiscoPacketIPv6 :: nat
  logf_calls :: "log_entry list"
  dlogf_calls :: "dlog_entry list"
  Port_calls :: "bool list"
  handleDiscoMessage_calls :: "(byte list \<times> AddrPort \<times> NodePublic) list"

definition logf :: "Conn \<Rightarrow> log_entry \<Rightarrow> Conn" where
  "logf c m = c\<lparr>logf_calls := logf_calls c @ [m]\<rparr>"

definition dlogf :: "Conn \<Rightarrow> dlog_entry \<Rightarrow> Conn" where
  "dlogf c m = c\<lparr>dlogf_calls := dlogf_calls c @ [m]\<rparr>"

definition pconn4_Port :: "Conn \<Rightarrow> 16 word \<times> Conn" where
  "pconn4_Port c = (pconn4_port c, c\<lparr>Port_calls := Port_calls c @ [False]\<rparr>)"

definition pconn6_Port :: "Conn \<Rightarrow> 16 word \<times> Conn" where
  "pconn6_Port c = (pconn6_port c, c\<lparr>Port_calls := Port_calls c @ [True]\<rparr>)"

definition handleDiscoMessage :: "Conn \<Rightarrow> byte list \<Rightarrow> AddrPort \<Rightarrow> NodePublic \<Rightarrow> Conn" where
  "handleDiscoMessage c msg src k =
     c\<lparr>handleDiscoMessage_calls := handleDiscoMessage_calls c @ [(msg, src, k)]\<rparr>"

text \<open>How one pass through the loop body ends.\<close>

datatype 'a flow = Panic | Return 'a | Continue 'a

text \<open>The body of the \<open>for\<close> loop of \<open>receiveDisco\<close>, for the read \<open>r\<close>.\<close>

definition receiveDisco_body :: "bool \<Rightarrow> Conn \<Rightarrow> read \<Rightarrow> Conn flow" where
  "receiveDisco_body isIPV6 c r =
     (case rd_err r of
        Some e \<Rightarrow>
          if e = ErrClosed then Return c
          else Return (logf c (LogRawReaderFailed e))
      | None \<Rightarrow>
          if rd_n r < int udpHeaderSize then Continue c
          else
            (case Option.bind (slice (rd_buf r) 2 4) BigEndian_Uint16 of
               None \<Rightarrow> Panic
             | Some dstPort \<Rightarrow>
                 (let c1 = (if dstPort = 0 then logf c LogUnexpectedPort0 else c);
                      (acceptPort, c2) = (if isIPV6 then pconn6_Port c1 else pconn4_Port c1)
                  in if acceptPort = 0 then Continue (dlogf c2 (DropAcceptPort0 dstPort))
                     else if dstPort \<noteq> acceptPort then Continue (dlogf c2 (DropPort dstPort))
                     else
                       (case AddrFromSlice (rd_src r) of
                          None \<Rightarrow> Continue (logf c2 (LogNotAnIP (rd_src r)))
                        | Some srcIP \<Rightarrow>
                            (case Option.bind (slice (rd_buf r) 0 2) BigEndian_Uint16 of
                               None \<Rightarrow> Panic
                             | Some srcPort \<Rightarrow>
                                 (let c3 =
                                    (if Is4 srcIP
                                     then c2\<lparr>metricRecvDiscoPacketIPv4 := metricRecvDiscoPacketIPv4 c2 + 1\<rparr>
                                     else c2\<lparr>metricRecvDiscoPacketIPv6 := metricRecvDiscoPacketIPv6 c2 + 1\<rparr>)
                                  in case slice (rd_buf r) (int udpHeaderSize) (rd_n r) of
                                       None \<Rightarrow> Panic
                                     | Some payload \<Rightarrow>
                                         Continue (handleDiscoMessage c3 payload
                                                     (AddrPortFrom srcIP srcPort) zeroNodePublic)))))))"

text \<open>
  The loop over the reads the socket delivers, in order. When they run out the
  goroutine waits in \<open>ReadFrom\<close>.
\<close>

datatype 'a ended = Panicked | Stopped 'a | Waiting 'a

fun receiveDisco :: "bool \<Rightarrow> Conn \<Rightarrow> read list \<Rightarrow> Conn ended" where
  "receiveDisco isIPV6 c [] = Waiting c"
| "receiveDisco isIPV6 c (r # rs) =
     (case receiveDisco_body isIPV6 c r of
        Panic \<Rightarrow> Panicked
      | Return c' \<Rightarrow> Stopped c'
      | Continue c' \<Rightarrow> receiveDisco isIPV6 c' rs)"

subsection \<open>Starting the capture: \<open>listenRawDisco\<close>\<close>

text \<open>
  The calls \<open>listenRawDisco\<close> makes on the two sockets (\<open>pc\<close> the raw one, \<open>tc\<close> the
  throwaway UDP one), and the \<open>go\<close> statement. A read deadline is \<open>Some d\<close> for
  \<open>time.Now().Add(d)\<close>, in milliseconds, and \<open>None\<close> for the zero time.
\<close>

datatype event =
    ListenPacket string string
  | SetBPF_pc
  | WriteToUDPAddrPort_tc "byte list" string
  | SetReadDeadline_pc "nat option"
  | Close_pc
  | Close_tc
  | Go_receiveDisco bool

text \<open>What the system answers to \<open>listenRawDisco\<close>, call by call.\<close>

record listen_env =
  debugDisableRawDisco :: bool
  UseSocketMark :: bool
  Assemble :: "Instruction list \<Rightarrow> error + RawInstruction list"
  ListenPacket_raw_err :: "error option"
  setBPF_answers :: setBPF_env
  ListenPacket_udp_err :: "error option"
  WriteToUDPAddrPort_err :: "error option"
  ReadFrom_results :: "read list"

text \<open>The errors of \<open>listenRawDisco\<close>, one per \<open>errors.New\<close> or \<open>fmt.Errorf\<close>.\<close>

datatype listen_error =
    DisabledByDebugFlag
  | SOMarkUnavailable
  | UnsupportedAddressFamily string
  | AssemblingFilter error
  | CreatingPacketConn error
  | InstallingBPFFilter error
  | CreatingDiscoTestSocket error
  | WritingDiscoTestPacket error
  | ReadingDuringSelfTest error

text \<open>
  \<open>Listening\<close> is the return of \<open>(pc, nil)\<close>, \<open>Failed e\<close> of \<open>(nil, e)\<close>;
  \<open>ListenWaiting\<close>: the reads supplied ran out while the self-test loop was still
  reading.
\<close>

datatype listen_outcome = Listening | Failed listen_error | ListenPanicked | ListenWaiting

definition JoinHostPort :: "string \<Rightarrow> string \<Rightarrow> string" where
  "JoinHostPort host port =
     (if CHR '':'' \<in> set host then ''['' @ host @ '']:'' @ port else host @ '':'' @ port)"

text \<open>The \<open>switch family\<close>: network, addr, testAddr and prog.\<close>

definition family_switch ::
  "32 word \<Rightarrow> 16 word \<Rightarrow> string \<Rightarrow> (string \<times> string \<times> string \<times> Instruction list) option" where
  "family_switch discoMagic1 discoMagic2 family =
     (if family = ''ip4'' then
        Some (''ip4:17'', ''0.0.0.0'', ''127.0.0.1:1'', magicsockFilterV4 discoMagic1 discoMagic2)
      else if family = ''ip6'' then
        Some (''ip6:17'', ''::'', ''[::1]:1'', magicsockFilterV6 discoMagic1 discoMagic2)
      else None)"

text \<open>The self-test loop, over the reads of \<open>pc\<close> in order.\<close>

datatype selftest = SelfTestPassed | SelfTestFailed error | SelfTestPanicked | SelfTestWaiting

fun selftest_loop :: "read list \<Rightarrow> selftest" where
  "selftest_loop [] = SelfTestWaiting"
| "selftest_loop (r # rs) =
     (case rd_err r of
        Some err \<Rightarrow> SelfTestFailed err
      | None \<Rightarrow>
          if rd_n r < int udpHeaderSize then selftest_loop rs
          else
            (case slice (rd_buf r) (int udpHeaderSize) (rd_n r) of
               None \<Rightarrow> SelfTestPanicked
             | Some b \<Rightarrow>
                 if b \<noteq> testDiscoPacket then selftest_loop rs
                 else SelfTestPassed))"

text \<open>
  \<open>listenRawDisco\<close>: the outcome, the calls made in order (the deferred \<open>tc.Close()\<close>
  last), and the \<open>Conn\<close>, which the function only hands to the goroutine it starts.
\<close>

definition listenRawDisco ::
  "32 word \<Rightarrow> 16 word \<Rightarrow> listen_env \<Rightarrow> Conn \<Rightarrow> string \<Rightarrow> listen_outcome \<times> event list \<times> Conn" where
  "listenRawDisco discoMagic1 discoMagic2 e c family =
     (if debugDisableRawDisco e then (Failed DisabledByDebugFlag, [], c)
      else if \<not> UseSocketMark e then (Failed SOMarkUnavailable, [], c)
      else
        (case family_switch discoMagic1 discoMagic2 family of
           None \<Rightarrow> (Failed (UnsupportedAddressFamily family), [], c)
         | Some (network, addr, testAddr, prog) \<Rightarrow>
        (case Assemble e prog of
           Inl err \<Rightarrow> (Failed (AssemblingFilter err), [], c)
         | Inr asm \<Rightarrow>
        (case ListenPacket_raw_err e of
           Some err \<Rightarrow> (Failed (CreatingPacketConn err), [ListenPacket network addr], c)
         | None \<Rightarrow>
        (let t1 = [ListenPacket network addr, SetBPF_pc] in
         case setBPF (setBPF_answers e) asm of
           Panics \<Rightarrow> (ListenPanicked, t1, c)
         | Returns (Some err) \<Rightarrow> (Failed (InstallingBPFFilter err), t1 @ [Close_pc], c)
         | Returns None \<Rightarrow>
        (let t2 = t1 @ [ListenPacket ''udp'' (JoinHostPort addr ''0'')] in
         case ListenPacket_udp_err e of
           Some err \<Rightarrow> (Failed (CreatingDiscoTestSocket err), t2 @ [Close_pc], c)
         | None \<Rightarrow>
        (let t3 = t2 @ [WriteToUDPAddrPort_tc testDiscoPacket testAddr] in
         case WriteToUDPAddrPort_err e of
           Some err \<Rightarrow> (Failed (WritingDiscoTestPacket err), t3 @ [Close_pc, Close_tc], c)
         | None \<Rightarrow>
        (let t4 = t3 @ [SetReadDeadline_pc (Some 100)] in
         case selftest_loop (ReadFrom_results e) of
           SelfTestFailed err \<Rightarrow> (Failed (ReadingDuringSelfTest err), t4 @ [Close_pc, Close_tc], c)
         | SelfTestPanicked \<Rightarrow> (ListenPanicked, t4 @ [Close_tc], c)
         | SelfTestWaiting \<Rightarrow> (ListenWaiting, t4, c)
         | SelfTestPassed \<Rightarrow>
             (Listening,
              t4 @ [SetReadDeadline_pc None, Go_receiveDisco (family = ''ip6''), Close_tc],
              c)))))))))"

text \<open>Event \<open>a\<close> occurs in the trace and \<open>b\<close> occurs after it.\<close>

definition occurs_before :: "event \<Rightarrow> event \<Rightarrow> event list \<Rightarrow> bool" where
  "occurs_before a b t = (b \<in> set (drop 1 (dropWhile (\<lambda>x. x \<noteq> a) t)))"

subsection \<open>Properties of programs and runs, and example packets\<close>

text \<open>Every jump of a program with its two targets: (index of the jump, target).\<close>

definition jump_targets :: "Instruction list \<Rightarrow> (nat \<times> nat) list" where
  "jump_targets prog =
     concat (map (\<lambda>i. case prog ! i of
                          JumpIf cond val skipTrue skipFalse \<Rightarrow>
                            [(i, i + skipTrue + 1), (i, i + skipFalse + 1)]
                        | _ \<Rightarrow> [])
                 [0..<length prog])"

definition jumps_forward_in_bounds :: "Instruction list \<Rightarrow> bool" where
  "jumps_forward_in_bounds prog = list_all (\<lambda>(i, t). i < t \<and> t < length prog) (jump_targets prog)"

fun is_load :: "Instruction \<Rightarrow> bool" where
  "is_load (LoadAbsolute _ _) = True"
| "is_load (LoadIndirect _ _) = True"
| "is_load (LoadMemShift _) = True"
| "is_load _ = False"

text \<open>The run executed finitely many instructions, at strictly growing indices.\<close>

definition finite_forward_run :: "Instruction list \<Rightarrow> nat list \<times> halt \<Rightarrow> bool" where
  "finite_forward_run prog res = (sorted_wrt (<) (fst res) \<and> length (fst res) \<le> length prog)"

text \<open>The last instruction executed is a return instruction, and the run returned its value.\<close>

definition ends_at_return :: "Instruction list \<Rightarrow> nat list \<times> halt \<Rightarrow> bool" where
  "ends_at_return prog res =
     (case res of (pcs, h) \<Rightarrow>
        pcs \<noteq> [] \<and> last pcs < length prog \<and>
        (case h of Ret v \<Rightarrow> prog ! last pcs = RetConstant v | _ \<Rightarrow> False))"

text \<open>The last instruction executed is a load that did not fit the packet.\<close>

definition ends_at_failed_load :: "Instruction list \<Rightarrow> nat list \<times> halt \<Rightarrow> bool" where
  "ends_at_failed_load prog res =
     (case res of (pcs, h) \<Rightarrow>
        pcs \<noteq> [] \<and> last pcs < length prog \<and> h = LoadOutOfBounds \<and> is_load (prog ! last pcs))"

text \<open>
  Example packets. A UDP datagram from port 5000 to port 4000 with no payload; the
  same with the six marker bytes \<open>54 53 f0 9f 92 ac\<close> as payload; that datagram in an
  IPv4 packet with a 20-byte header (don't-fragment set); and the same IPv4 packet with
  the more-fragments bit set instead.
\<close>

definition example_udp_empty :: "byte list" where
  "example_udp_empty = [0x13, 0x88, 0x0f, 0xa0, 0x00, 0x08, 0x00, 0x00]"

definition example_udp_disco :: "byte list" where
  "example_udp_disco =
     [ 0x13, 0x88, 0x0f, 0xa0, 0x00, 0x0e, 0x00, 0x00,
       0x54, 0x53, 0xf0, 0x9f, 0x92, 0xac ]"

definition example_ipv4_disco :: "byte list" where
  "example_ipv4_disco =
     [ 0x45, 0x00, 0x00, 0x22, 0x00, 0x00, 0x40, 0x00, 0x40, 0x11, 0x00, 0x00,
       0x7f, 0x00, 0x00, 0x01, 0x7f, 0x00, 0x00, 0x01,
       0x13, 0x88, 0x0f, 0xa0, 0x00, 0x0e, 0x00, 0x00,
       0x54, 0x53, 0xf0, 0x9f, 0x92, 0xac ]"

definition example_ipv4_fragment :: "byte list" where
  "example_ipv4_fragment =
     [ 0x45, 0x00, 0x00, 0x22, 0x00, 0x00, 0x20, 0x00, 0x40, 0x11, 0x00, 0x00,
       0x7f, 0x00, 0x00, 0x01, 0x7f, 0x00, 0x00, 0x01,
       0x13, 0x88, 0x0f, 0xa0, 0x00, 0x0e, 0x00, 0x00,
       0x54, 0x53, 0xf0, 0x9f, 0x92, 0xac ]"

subsection \<open>What the specification says of a read\<close>

text \<open>
  The destination port (bytes 2-3) and the source port (bytes 0-1) of the UDP header,
  big-endian, and the bytes from offset 8 up to the count read.
\<close>

definition dstPort_of :: "byte list \<Rightarrow> 16 word" where
  "dstPort_of buf = push_bit 8 (ucast (buf ! 2)) OR ucast (buf ! 3)"

definition srcPort_of :: "byte list \<Rightarrow> 16 word" where
  "srcPort_of buf = push_bit 8 (ucast (buf ! 0)) OR ucast (buf ! 1)"

definition payload_of :: "read \<Rightarrow> byte list" where
  "payload_of r = take (nat (rd_n r) - 8) (drop 8 (rd_buf r))"

text \<open>The port currently bound for the family of the loop.\<close>

definition acceptPort_of :: "bool \<Rightarrow> Conn \<Rightarrow> 16 word" where
  "acceptPort_of isIPV6 c = (if isIPV6 then pconn6_port c else pconn4_port c)"

text \<open>The buffer is the array of 1500 bytes and the count does not exceed it.\<close>

definition array_read :: "read \<Rightarrow> bool" where
  "array_read r \<longleftrightarrow> length (rd_buf r) = 1500 \<and> rd_n r \<le> 1500"

text \<open>
  The drop of the port-lookup and port-comparison steps: the lookup is made, and the
  verbose log names the reason.
\<close>

definition port_drop :: "bool \<Rightarrow> Conn \<Rightarrow> 16 word \<Rightarrow> Conn" where
  "port_drop isIPV6 c dstPort =
     dlogf (c\<lparr>Port_calls := Port_calls c @ [isIPV6]\<rparr>)
       (if acceptPort_of isIPV6 c = 0 then DropAcceptPort0 dstPort else DropPort dstPort)"

text \<open>
  Everything before the self-test succeeds: the two switches, the family, the assembly,
  the raw socket, \<open>setBPF\<close> (returning nil), the test socket and the write.
\<close>

definition reaches_selftest :: "32 word \<Rightarrow> 16 word \<Rightarrow> listen_env \<Rightarrow> string \<Rightarrow> bool" where
  "reaches_selftest m1 m2 e family \<longleftrightarrow>
     \<not> debugDisableRawDisco e \<and> UseSocketMark e \<and>
     (case family_switch m1 m2 family of
        None \<Rightarrow> False
      | Some (network, addr, testAddr, prog) \<Rightarrow>
          (case Assemble e prog of
             Inl err \<Rightarrow> False
           | Inr asm \<Rightarrow> setBPF (setBPF_answers e) asm = Returns None)) \<and>
     ListenPacket_raw_err e = None \<and> ListenPacket_udp_err e = None \<and>
     WriteToUDPAddrPort_err e = None"

text \<open>The calls made up to the self-test loop, in order.\<close>

definition setup_calls :: "string \<Rightarrow> event list" where
  "setup_calls family =
     (if family = ''ip6''
      then [ListenPacket ''ip6:17'' ''::'', SetBPF_pc, ListenPacket ''udp'' ''[::]:0'',
            WriteToUDPAddrPort_tc testDiscoPacket ''[::1]:1'', SetReadDeadline_pc (Some 100)]
      else [ListenPacket ''ip4:17'' ''0.0.0.0'', SetBPF_pc, ListenPacket ''udp'' ''0.0.0.0:0'',
            WriteToUDPAddrPort_tc testDiscoPacket ''127.0.0.1:1'', SetReadDeadline_pc (Some 100)])"

text \<open>
  A read whose bytes after the UDP header are exactly the test packet; a read the
  self-test loop passes over; and a read with another source address and other header
  bytes (ports, length, checksum).
\<close>

definition is_test_packet :: "read \<Rightarrow> bool" where
  "is_test_packet r \<longleftrightarrow>
     rd_err r = None \<and> 8 \<le> rd_n r \<and> rd_n r \<le> int (length (rd_buf r)) \<and>
     payload_of r = testDiscoPacket"

definition skipped :: "read \<Rightarrow> bool" where
  "skipped r \<longleftrightarrow>
     rd_err r = None \<and>
     (rd_n r < 8 \<or> (rd_n r \<le> int (length (rd_buf r)) \<and> payload_of r \<noteq> testDiscoPacket))"

definition from_elsewhere :: "byte list \<Rightarrow> byte list \<Rightarrow> read \<Rightarrow> read" where
  "from_elsewhere s h r = r\<lparr>rd_src := s, rd_buf := h @ drop 8 (rd_buf r)\<rparr>"

text \<open>
  Example reads and state: the scenario of the specification (source port 5000,
  destination port 4000, payload \<open>AA BB\<close>, from 127.0.0.1, with port 4000 bound for
  IPv4), a read of 7 bytes, a read for port 0, the test packet arriving from another
  host, a deadline timeout and a closed socket; and a system where every call before
  the self-test succeeds.
\<close>

definition example_Conn :: Conn where
  "example_Conn =
     \<lparr> pconn4_port = 4000, pconn6_port = 0,
       metricRecvDiscoPacketIPv4 = 0, metricRecvDiscoPacketIPv6 = 0,
       logf_calls = [], dlogf_calls = [], Port_calls = [], handleDiscoMessage_calls = [] \<rparr>"

definition example_read :: read where
  "example_read =
     \<lparr> rd_n = 10, rd_src = [127, 0, 0, 1], rd_err = None,
       rd_buf = [0x13, 0x88, 0x0f, 0xa0, 0x00, 0x0a, 0x00, 0x00, 0xAA, 0xBB] @ replicate 1490 0 \<rparr>"

definition example_short_read :: read where
  "example_short_read =
     \<lparr> rd_n = 7, rd_src = [127, 0, 0, 1], rd_err = None,
       rd_buf = [0x13, 0x88, 0x0f, 0xa0, 0x00, 0x0a, 0x00] @ replicate 1493 0 \<rparr>"

definition example_port0_read :: read where
  "example_port0_read =
     \<lparr> rd_n = 10, rd_src = [127, 0, 0, 1], rd_err = None,
       rd_buf = [0x13, 0x88, 0x00, 0x00, 0x00, 0x0a, 0x00, 0x00, 0xAA, 0xBB] @ replicate 1490 0 \<rparr>"

definition example_test_read :: read where
  "example_test_read =
     \<lparr> rd_n = 70, rd_src = [10, 1, 2, 3], rd_err = None,
       rd_buf = [0xc0, 0x01, 0x00, 0x35, 0x00, 0x46, 0x00, 0x00] @ testDiscoPacket @ replicate 1430 0 \<rparr>"

definition example_timeout :: read where
  "example_timeout = \<lparr> rd_n = 0, rd_src = [], rd_err = Some ErrDeadlineExceeded, rd_buf = replicate 1500 0 \<rparr>"

definition example_env :: "read list \<Rightarrow> listen_env" where
  "example_env rs =
     \<lparr> debugDisableRawDisco = False, UseSocketMark = True,
       Assemble = (\<lambda>prog. Inr (map (\<lambda>i. \<lparr>Op = 0, Jt = 0, Jf = 0, K = 0\<rparr>) prog)),
       ListenPacket_raw_err = None,
       setBPF_answers = \<lparr>SyscallConn_err = None, Control_err = None, SetsockoptSockFprog_err = None\<rparr>,
       ListenPacket_udp_err = None, WriteToUDPAddrPort_err = None,
       ReadFrom_results = rs \<rparr>"

definition example_closed :: read where
  "example_closed = \<lparr> rd_n = 0, rd_src = [], rd_err = Some ErrClosed, rd_buf = replicate 1500 0 \<rparr>"

section \<open>Big-endian words and loads\<close>

lemma list4: "length xs = 4 \<Longrightarrow> \<exists>a b c d. xs = [a, b, c, d]"
  by (auto simp: eval_nat_numeral length_Suc_conv)
lemma list2: "length xs = 2 \<Longrightarrow> \<exists>a b. xs = [a, b]"
  by (auto simp: eval_nat_numeral length_Suc_conv)

lemma Uint32_eq_iff:
  "BigEndian_Uint32 [b0, b1, b2, b3] = Some m \<longleftrightarrow> [b0, b1, b2, b3] = magic1_bytes m"
proof
  assume "BigEndian_Uint32 [b0, b1, b2, b3] = Some m"
  then have m: "m = ucast b3 OR push_bit 8 (ucast b2) OR push_bit 16 (ucast b1) OR push_bit 24 (ucast b0)"
    by simp
  have "ucast (drop_bit 24 m) = b0" unfolding m
    by (rule bit_word_eqI) (auto simp: bit_simps dest: bit_imp_le_length)
  moreover have "ucast (drop_bit 16 m) = b1" unfolding m
    by (rule bit_word_eqI) (auto simp: bit_simps dest: bit_imp_le_length)
  moreover have "ucast (drop_bit 8 m) = b2" unfolding m
    by (rule bit_word_eqI) (auto simp: bit_simps dest: bit_imp_le_length)
  moreover have "ucast m = b3" unfolding m
    by (rule bit_word_eqI) (auto simp: bit_simps dest: bit_imp_le_length)
  ultimately show "[b0, b1, b2, b3] = magic1_bytes m"
    by (simp add: magic1_bytes_def)
next
  assume "[b0, b1, b2, b3] = magic1_bytes m"
  then have b: "b0 = ucast (drop_bit 24 m)" "b1 = ucast (drop_bit 16 m)"
     "b2 = ucast (drop_bit 8 m)" "b3 = ucast m"
    by (simp_all add: magic1_bytes_def)
  have "ucast b3 OR push_bit 8 (ucast b2) OR push_bit 16 (ucast b1) OR push_bit 24 (ucast b0) = m"
    unfolding b
    apply (rule bit_word_eqI)
    apply (auto simp: bit_simps dest: bit_imp_le_length)
    apply (rule ccontr, simp add: not_less)
    done
  then show "BigEndian_Uint32 [b0, b1, b2, b3] = Some m" by simp
qed

lemma ucast_16_32_inj: "(ucast (v :: 16 word) :: 32 word) = ucast w \<Longrightarrow> v = w"
proof -
  assume a: "(ucast v :: 32 word) = ucast w"
  have "v = ucast (ucast v :: 32 word)"
    by (rule bit_word_eqI) (auto simp: bit_simps dest: bit_imp_le_length)
  also have "\<dots> = ucast (ucast w :: 32 word)" by (simp add: a)
  also have "\<dots> = w"
    by (rule bit_word_eqI) (auto simp: bit_simps dest: bit_imp_le_length)
  finally show ?thesis .
qed

lemma Uint16_eq_iff:
  "BigEndian_Uint16 [b0, b1] = Some m \<longleftrightarrow> [b0, b1] = magic2_bytes m"
proof
  assume "BigEndian_Uint16 [b0, b1] = Some m"
  then have m: "m = ucast b1 OR push_bit 8 (ucast b0)"
    by simp
  have "ucast (drop_bit 8 m) = b0" unfolding m
    by (rule bit_word_eqI) (auto simp: bit_simps dest: bit_imp_le_length)
  moreover have "ucast m = b1" unfolding m
    by (rule bit_word_eqI) (auto simp: bit_simps dest: bit_imp_le_length)
  ultimately show "[b0, b1] = magic2_bytes m"
    by (simp add: magic2_bytes_def)
next
  assume "[b0, b1] = magic2_bytes m"
  then have b: "b0 = ucast (drop_bit 8 m)" "b1 = ucast m"
    by (simp_all add: magic2_bytes_def)
  have "ucast b1 OR push_bit 8 (ucast b0) = m"
    unfolding b
    apply (rule bit_word_eqI)
    apply (auto simp: bit_simps dest: bit_imp_le_length)
    done
  then show "BigEndian_Uint16 [b0, b1] = Some m" by simp
qed

lemma loadCommon4:
  "loadCommon inp off 4 =
     (if off + 4 \<le> length inp then Loaded (the (BigEndian_Uint32 (take 4 (drop off inp)))) else OutOfBounds)"
proof (cases "off + 4 \<le> length inp")
  case True
  then have "length (take 4 (drop off inp)) = 4" by simp
  from list4 [OF this] obtain a b c d where "take 4 (drop off inp) = [a, b, c, d]" by blast
  with True show ?thesis by (simp add: loadCommon_def inBounds_def)
next
  case False
  then show ?thesis by (simp add: loadCommon_def inBounds_def)
qed

lemma loadCommon2:
  "loadCommon inp off 2 =
     (if off + 2 \<le> length inp then Loaded (ucast (the (BigEndian_Uint16 (take 2 (drop off inp))))) else OutOfBounds)"
proof (cases "off + 2 \<le> length inp")
  case True
  then have "length (take 2 (drop off inp)) = 2" by simp
  from list2 [OF this] obtain a b where "take 2 (drop off inp) = [a, b]" by blast
  with True show ?thesis by (simp add: loadCommon_def inBounds_def)
next
  case False
  then show ?thesis by (simp add: loadCommon_def inBounds_def)
qed

lemma load4_magic:
  "loadCommon inp off 4 = Loaded m \<longleftrightarrow> segment inp off 4 = Some (magic1_bytes m)"
proof (cases "off + 4 \<le> length inp")
  case True
  then have "length (take 4 (drop off inp)) = 4" by simp
  from list4 [OF this] obtain a b c d where e: "take 4 (drop off inp) = [a, b, c, d]" by blast
  have "loadCommon inp off 4 = Loaded m \<longleftrightarrow> BigEndian_Uint32 [a, b, c, d] = Some m"
    using True e by (simp add: loadCommon_def inBounds_def)
  then show ?thesis using True e Uint32_eq_iff [of a b c d m] by (simp add: segment_def)
next
  case False
  then show ?thesis by (simp add: loadCommon_def inBounds_def segment_def)
qed

lemma load2_magic:
  "loadCommon inp off 2 = Loaded (ucast m) \<longleftrightarrow> segment inp off 2 = Some (magic2_bytes m)"
proof (cases "off + 2 \<le> length inp")
  case True
  then have "length (take 2 (drop off inp)) = 2" by simp
  from list2 [OF this] obtain a b where e: "take 2 (drop off inp) = [a, b]" by blast
  have "loadCommon inp off 2 = Loaded (ucast m) \<longleftrightarrow> BigEndian_Uint16 [a, b] = Some m"
    using True e by (auto simp add: loadCommon_def inBounds_def dest: ucast_16_32_inj)
  then show ?thesis using True e Uint16_eq_iff [of a b m] by (simp add: segment_def)
next
  case False
  then show ?thesis by (simp add: loadCommon_def inBounds_def segment_def)
qed

section \<open>The runs of the two programs\<close>

lemma run_V6:
  "run (magicsockFilterV6 m1 m2) inp =
     (case loadCommon inp 8 4 of
        OutOfBounds \<Rightarrow> ([0], LoadOutOfBounds)
      | BadSize \<Rightarrow> ([0], InvalidLoadSize)
      | Loaded a \<Rightarrow>
          if a \<noteq> m1 then ([0, 1, 5], Ret 0)
          else (case loadCommon inp 12 2 of
                  OutOfBounds \<Rightarrow> ([0, 1, 2], LoadOutOfBounds)
                | BadSize \<Rightarrow> ([0, 1, 2], InvalidLoadSize)
                | Loaded b \<Rightarrow>
                    if b = ucast m2 then ([0, 1, 2, 3, 4], Ret 0xFFFFFFFF)
                    else ([0, 1, 2, 3, 5], Ret 0)))"
  by (simp add: run_def magicsockFilterV6_def run_from.simps loadAbsolute_def jumpIf_def
      udpHeaderSize_def split: load.splits)

lemma run_V4:
  "run (magicsockFilterV4 m1 m2) inp =
     (case loadCommon inp 6 2 of
        OutOfBounds \<Rightarrow> ([0], LoadOutOfBounds)
      | BadSize \<Rightarrow> ([0], InvalidLoadSize)
      | Loaded f \<Rightarrow>
          if f AND 0x2000 \<noteq> 0 then ([0, 1, 9], Ret 0)
          else if f AND 0x1fff \<noteq> 0 then ([0, 1, 2, 9], Ret 0)
          else (case loadMemShift 0 inp of
              OutOfBounds \<Rightarrow> ([0, 1, 2, 3], LoadOutOfBounds)
            | BadSize \<Rightarrow> ([0, 1, 2, 3], InvalidLoadSize)
            | Loaded x \<Rightarrow>
               (case loadCommon inp (8 + unat x) 4 of
                  OutOfBounds \<Rightarrow> ([0, 1, 2, 3, 4], LoadOutOfBounds)
                | BadSize \<Rightarrow> ([0, 1, 2, 3, 4], InvalidLoadSize)
                | Loaded a \<Rightarrow>
                  if a \<noteq> m1 then ([0, 1, 2, 3, 4, 5, 9], Ret 0)
                  else (case loadCommon inp (12 + unat x) 2 of
                      OutOfBounds \<Rightarrow> ([0, 1, 2, 3, 4, 5, 6], LoadOutOfBounds)
                    | BadSize \<Rightarrow> ([0, 1, 2, 3, 4, 5, 6], InvalidLoadSize)
                    | Loaded b \<Rightarrow>
                        if b = ucast m2 then ([0, 1, 2, 3, 4, 5, 6, 7, 8], Ret 0xFFFFFFFF)
                        else ([0, 1, 2, 3, 4, 5, 6, 7, 9], Ret 0)))))"
  by (simp add: run_def magicsockFilterV4_def run_from.simps loadAbsolute_def loadIndirect_def jumpIf_def
      udpHeaderSize_def split: load.splits)

lemma ucast_and_16_32: "(ucast (v :: 16 word) :: 32 word) AND ucast (k :: 16 word) = ucast (v AND k)"
  by (rule bit_word_eqI) (auto simp: bit_simps)

lemma ucast_16_32_eq_0: "(ucast (v :: 16 word) :: 32 word) = 0 \<longleftrightarrow> v = 0"
  using ucast_16_32_inj [of v 0] by auto

lemma mask_test_16_32:
  "(ucast (v :: 16 word) :: 32 word) AND 0x2000 = 0 \<longleftrightarrow> v AND 0x2000 = 0"
  "(ucast (v :: 16 word) :: 32 word) AND 0x1fff = 0 \<longleftrightarrow> v AND 0x1fff = 0"
  using ucast_and_16_32 [of v "0x2000"] ucast_and_16_32 [of v "0x1fff"]
  by (simp_all add: ucast_16_32_eq_0)

lemma unat_memshift: "unat (ucast ((b :: byte) AND 0x0f) * 4 :: 32 word) = 4 * unat (b AND 0x0f)"
proof -
  have "unat (b AND 0x0f) \<le> unat (0x0f :: byte)"
    by (rule word_and_le1 [THEN word_le_nat_alt [THEN iffD1]])
  then have le: "unat (b AND 0x0f) \<le> 15" by simp
  have "unat (ucast (b AND 0x0f) :: 32 word) = unat (b AND 0x0f)"
    using le by (simp add: unsigned_ucast_eq take_bit_nat_eq_self_iff)
  then show ?thesis using le by (simp add: unat_word_ariths)
qed

lemma load_flags:
  "loadCommon inp 6 2 = (case flagsAndOffset inp of None \<Rightarrow> OutOfBounds | Some f \<Rightarrow> Loaded (ucast f))"
proof (cases "6 + 2 \<le> length inp")
  case True
  then have "length (take 2 (drop 6 inp)) = 2" by simp
  from list2 [OF this] obtain a b where e: "take 2 (drop 6 inp) = [a, b]" by blast
  from e have "take 2 (drop 6 inp) ! 0 = a" "take 2 (drop 6 inp) ! 1 = b" by simp_all
  with True have "inp ! 6 = a" "inp ! 7 = b" by simp_all
  then show ?thesis using True e
    by (simp add: loadCommon_def inBounds_def flagsAndOffset_def or.commute)
next
  case False
  then show ?thesis by (simp add: loadCommon_def inBounds_def flagsAndOffset_def)
qed

lemma load_hl:
  "loadMemShift 0 inp = (if inp = [] then OutOfBounds else Loaded (ucast (hd inp AND 0x0f) * 4))"
  by (cases inp) (simp_all add: loadMemShift_def inBounds_def)

lemma Run_V6_iff:
  "Run (magicsockFilterV6 m1 m2) inp \<noteq> 0 \<longleftrightarrow> marker_at m1 m2 inp 8"
proof -
  have "Run (magicsockFilterV6 m1 m2) inp \<noteq> 0 \<longleftrightarrow>
        loadCommon inp 8 4 = Loaded m1 \<and> loadCommon inp (8 + 4) 2 = Loaded (ucast m2)"
    by (simp add: Run_def run_V6 split: load.splits)
  then show ?thesis
    by (simp only: load4_magic load2_magic marker_at_def)
qed

lemma Run_V4_iff:
  "Run (magicsockFilterV4 m1 m2) inp \<noteq> 0 \<longleftrightarrow>
     unfragmented inp \<and> marker_at m1 m2 inp (headerLength inp + 8)"
proof (cases "flagsAndOffset inp")
  case None
  then have "length inp < 8"
    by (auto simp: flagsAndOffset_def split: if_splits)
  then have "\<not> marker_at m1 m2 inp (headerLength inp + 8)"
    by (simp add: marker_at_def segment_def)
  moreover have "Run (magicsockFilterV4 m1 m2) inp = 0"
    using None by (simp add: Run_def run_V4 load_flags)
  ultimately show ?thesis by simp
next
  case (Some f)
  then have ne: "inp \<noteq> []"
    by (auto simp: flagsAndOffset_def split: if_splits)
  then have hl: "headerLength inp = 4 * unat (hd inp AND 0x0f)"
    by (cases inp) (simp_all add: headerLength_def)
  have nz: "(0xFFFFFFFF :: 32 word) \<noteq> 0" by simp
  have unf: "unfragmented inp \<longleftrightarrow> f AND 0x2000 = 0 \<and> f AND 0x1fff = 0"
    using Some by (simp add: unfragmented_def moreFragments_def fragmentOffsetNonZero_def)
  have "Run (magicsockFilterV4 m1 m2) inp \<noteq> 0 \<longleftrightarrow>
        (f AND 0x2000 = 0 \<and> f AND 0x1fff = 0) \<and>
        loadCommon inp (headerLength inp + 8) 4 = Loaded m1 \<and>
        loadCommon inp (headerLength inp + 8 + 4) 2 = Loaded (ucast m2)"
    using Some ne nz
    by (simp add: Run_def run_V4 load_flags load_hl mask_test_16_32 unat_memshift hl add.commute
        split: load.splits)
  then show ?thesis
    by (simp only: load4_magic load2_magic marker_at_def unf)
qed

lemma loadCommon_not_BadSize: "loadCommon inp off 4 \<noteq> BadSize" "loadCommon inp off 2 \<noteq> BadSize"
  by (simp_all add: loadCommon4 loadCommon2)

lemma loadMemShift_not_BadSize: "loadMemShift off inp \<noteq> BadSize"
  by (simp add: loadMemShift_def)

lemma jumps_V4: "jumps_forward_in_bounds (magicsockFilterV4 m1 m2)"
  by (simp add: jumps_forward_in_bounds_def jump_targets_def magicsockFilterV4_def upt_rec)

lemma jumps_V6: "jumps_forward_in_bounds (magicsockFilterV6 m1 m2)"
  by (simp add: jumps_forward_in_bounds_def jump_targets_def magicsockFilterV6_def upt_rec)

lemma ends_V6:
  "finite_forward_run (magicsockFilterV6 m1 m2) (run (magicsockFilterV6 m1 m2) inp) \<and>
   (ends_at_return (magicsockFilterV6 m1 m2) (run (magicsockFilterV6 m1 m2) inp) \<or>
    ends_at_failed_load (magicsockFilterV6 m1 m2) (run (magicsockFilterV6 m1 m2) inp))"
  using loadCommon_not_BadSize [of inp]
  unfolding run_V6
  by (simp add: finite_forward_run_def ends_at_return_def ends_at_failed_load_def
      magicsockFilterV6_def split: load.splits)

lemma ends_V4:
  "finite_forward_run (magicsockFilterV4 m1 m2) (run (magicsockFilterV4 m1 m2) inp) \<and>
   (ends_at_return (magicsockFilterV4 m1 m2) (run (magicsockFilterV4 m1 m2) inp) \<or>
    ends_at_failed_load (magicsockFilterV4 m1 m2) (run (magicsockFilterV4 m1 m2) inp))"
  using loadCommon_not_BadSize [of inp] loadMemShift_not_BadSize [of 0 inp]
  unfolding run_V4
  by (simp add: finite_forward_run_def ends_at_return_def ends_at_failed_load_def
      magicsockFilterV4_def split: load.splits)

lemma run_V6_udp_empty:
  "run (magicsockFilterV6 0x5453f09f 0x92ac) example_udp_empty = ([0], LoadOutOfBounds)"
  by (simp add: run_V6 loadCommon4 example_udp_empty_def)

lemma run_V4_ipv4_disco:
  "run (magicsockFilterV4 0x5453f09f 0x92ac) example_ipv4_disco =
     ([0, 1, 2, 3, 4, 5, 6, 7, 8], Ret 0xFFFFFFFF)"
  by (simp add: run_V4 loadCommon4 loadCommon2 loadMemShift_def inBounds_def example_ipv4_disco_def)

lemma unfragmented_ipv4_disco: "unfragmented example_ipv4_disco"
  by (simp add: unfragmented_def moreFragments_def fragmentOffsetNonZero_def flagsAndOffset_def
      example_ipv4_disco_def)

lemma headerLength_ipv4_disco: "headerLength example_ipv4_disco = 20"
  by (simp add: headerLength_def example_ipv4_disco_def)

lemma marker_at_ipv4_disco: "marker_at 0x5453f09f 0x92ac example_ipv4_disco 28"
  by (simp add: marker_at_def segment_def magic1_bytes_def magic2_bytes_def example_ipv4_disco_def)

lemma marker_at_udp_disco: "marker_at 0x5453f09f 0x92ac example_udp_disco 8"
  by (simp add: marker_at_def segment_def magic1_bytes_def magic2_bytes_def example_udp_disco_def)

lemma moreFragments_ipv4_fragment: "moreFragments example_ipv4_fragment"
  by (simp add: moreFragments_def flagsAndOffset_def example_ipv4_fragment_def)

lemma marker_at_ipv4_fragment: "marker_at 0x5453f09f 0x92ac example_ipv4_fragment 28"
  by (simp add: marker_at_def segment_def magic1_bytes_def magic2_bytes_def example_ipv4_fragment_def)

section \<open>The filter programs\<close>

text \<open>
  Claim C2. On an unfragmented IPv4 packet \<open>magicsockFilterV4\<close> returns a non-zero
  value if and only if the 4 bytes at header length + 8 are the bytes of the first
  magic value and the 2 bytes at header length + 12 are the bytes of the second; on a
  buffer that starts at the UDP header \<open>magicsockFilterV6\<close> does so if and only if the
  same holds at offsets 8 and 12. A buffer too short to hold a segment does not match.
\<close>

theorem filters_accept_iff_marker:
  "(unfragmented buf \<longrightarrow>
      (Run (magicsockFilterV4 m1 m2) buf \<noteq> 0 \<longleftrightarrow> marker_at m1 m2 buf (headerLength buf + 8)))
   \<and> (Run (magicsockFilterV6 m1 m2) buf6 \<noteq> 0 \<longleftrightarrow> marker_at m1 m2 buf6 8)"
  by (simp add: Run_V4_iff Run_V6_iff)

theorem filters_accept_iff_marker_witness:
  "unfragmented example_ipv4_disco
   \<and> Run (magicsockFilterV4 0x5453f09f 0x92ac) example_ipv4_disco \<noteq> 0
   \<and> Run (magicsockFilterV6 0x5453f09f 0x92ac) example_udp_disco \<noteq> 0
   \<and> Run (magicsockFilterV6 0x5453f09f 0x92ac) example_udp_empty = 0"
proof -
  have "\<not> marker_at 0x5453f09f 0x92ac example_udp_empty 8"
    by (simp add: marker_at_def segment_def example_udp_empty_def)
  then show ?thesis
    using filters_accept_iff_marker [of example_ipv4_disco "0x5453f09f" "0x92ac" example_udp_disco]
      filters_accept_iff_marker [of example_ipv4_disco "0x5453f09f" "0x92ac" example_udp_empty]
      unfragmented_ipv4_disco marker_at_ipv4_disco marker_at_udp_disco
    by (simp add: headerLength_ipv4_disco)
qed

text \<open>
  Claim C3. On a buffer whose bytes 6-7 have the more-fragments bit (mask 0x2000) set
  or a non-zero fragment offset (mask 0x1fff), \<open>magicsockFilterV4\<close> returns zero,
  whatever the rest of the buffer holds.
\<close>

theorem filterV4_drops_fragments:
  "moreFragments buf \<or> fragmentOffsetNonZero buf \<Longrightarrow> Run (magicsockFilterV4 m1 m2) buf = 0"
  using Run_V4_iff [of m1 m2 buf] by (auto simp: unfragmented_def)

theorem filterV4_drops_fragments_witness:
  "moreFragments example_ipv4_fragment
   \<and> marker_at 0x5453f09f 0x92ac example_ipv4_fragment (headerLength example_ipv4_fragment + 8)
   \<and> Run (magicsockFilterV4 0x5453f09f 0x92ac) example_ipv4_fragment = 0"
proof -
  have "headerLength example_ipv4_fragment = 20"
    by (simp add: headerLength_def example_ipv4_fragment_def)
  then show ?thesis
    using filterV4_drops_fragments [of example_ipv4_fragment "0x5453f09f" "0x92ac"]
      moreFragments_ipv4_fragment marker_at_ipv4_fragment
    by simp
qed

text \<open>
  Claim C7, as the code has it. In both programs every jump target lies after the
  jump and inside the program, and every run executes at most as many instructions as
  the program has, at strictly growing indices. A run ends at a return instruction, or
  at a load that reaches past the end of the buffer: the verdict is then zero, and no
  return instruction is executed.
\<close>

theorem filters_jumps_and_runs:
  "jumps_forward_in_bounds (magicsockFilterV4 m1 m2)
   \<and> jumps_forward_in_bounds (magicsockFilterV6 m1 m2)
   \<and> finite_forward_run (magicsockFilterV4 m1 m2) (run (magicsockFilterV4 m1 m2) inp)
   \<and> (ends_at_return (magicsockFilterV4 m1 m2) (run (magicsockFilterV4 m1 m2) inp)
      \<or> ends_at_failed_load (magicsockFilterV4 m1 m2) (run (magicsockFilterV4 m1 m2) inp))
   \<and> finite_forward_run (magicsockFilterV6 m1 m2) (run (magicsockFilterV6 m1 m2) inp6)
   \<and> (ends_at_return (magicsockFilterV6 m1 m2) (run (magicsockFilterV6 m1 m2) inp6)
      \<or> ends_at_failed_load (magicsockFilterV6 m1 m2) (run (magicsockFilterV6 m1 m2) inp6))"
  using jumps_V4 [of m1 m2] jumps_V6 [of m1 m2] ends_V4 [of m1 m2 inp] ends_V6 [of m1 m2 inp6]
  by simp

theorem filters_jumps_and_runs_witness:
  "jumps_forward_in_bounds (magicsockFilterV4 0x5453f09f 0x92ac)
   \<and> jumps_forward_in_bounds (magicsockFilterV6 0x5453f09f 0x92ac)
   \<and> ends_at_return (magicsockFilterV4 0x5453f09f 0x92ac)
        (run (magicsockFilterV4 0x5453f09f 0x92ac) example_ipv4_disco)
   \<and> ends_at_failed_load (magicsockFilterV6 0x5453f09f 0x92ac)
        (run (magicsockFilterV6 0x5453f09f 0x92ac) example_udp_empty)"
proof -
  have "\<not> ends_at_failed_load (magicsockFilterV4 0x5453f09f 0x92ac)
          (run (magicsockFilterV4 0x5453f09f 0x92ac) example_ipv4_disco)"
    by (simp add: run_V4_ipv4_disco ends_at_failed_load_def)
  moreover have "\<not> ends_at_return (magicsockFilterV6 0x5453f09f 0x92ac)
          (run (magicsockFilterV6 0x5453f09f 0x92ac) example_udp_empty)"
    by (simp add: run_V6_udp_empty ends_at_return_def)
  ultimately show ?thesis
    using filters_jumps_and_runs [of "0x5453f09f" "0x92ac" example_ipv4_disco example_udp_empty]
    by blast
qed

text \<open>
  The claim as stated fails: on a UDP datagram without payload the IPv6 program stops
  at its first instruction, the load of 4 bytes at offset 8, and no return instruction
  is reached.
\<close>

theorem filterV6_stops_at_first_load:
  "run (magicsockFilterV6 0x5453f09f 0x92ac) example_udp_empty = ([0], LoadOutOfBounds)
   \<and> \<not> ends_at_return (magicsockFilterV6 0x5453f09f 0x92ac)
          (run (magicsockFilterV6 0x5453f09f 0x92ac) example_udp_empty)"
  by (simp add: run_V6_udp_empty ends_at_return_def)

section \<open>Installing the filter\<close>

text \<open>
  Claim C1 says that \<open>setBPF\<close> returns a non-nil error when the \<open>SO_ATTACH_FILTER\<close>
  \<open>setsockopt\<close> fails. The code returns \<open>err\<close>, the nil result of \<open>Control\<close>, in that
  branch: with \<open>SyscallConn\<close> and \<open>Control\<close> succeeding and \<open>setsockopt\<close> failing with
  \<open>EPERM\<close>, \<open>setBPF\<close> returns nil.
\<close>

theorem setBPF_returns_nil_when_setsockopt_fails:
  "setBPF \<lparr>SyscallConn_err = None, Control_err = None,
            SetsockoptSockFprog_err = Some (Errno ''EPERM'')\<rparr>
          [\<lparr>Op = 0x06, Jt = 0, Jf = 0, K = 0\<rparr>]
   = Returns None"
  by (simp add: setBPF_def)

section \<open>The receive loop\<close>

lemma slice_2_4:
  "4 \<le> length buf \<Longrightarrow> Option.bind (slice buf 2 4) BigEndian_Uint16 = Some (dstPort_of buf)"
proof -
  assume a: "4 \<le> length buf"
  then obtain b0 b1 b2 b3 rest where buf: "buf = b0 # b1 # b2 # b3 # rest"
    by (cases buf; simp; rename_tac x xs; case_tac xs; simp; rename_tac y ys; case_tac ys; simp;
        rename_tac z zs; case_tac zs; simp)
  show ?thesis unfolding buf
    by (simp add: slice_def dstPort_of_def or.commute)
qed

lemma slice_0_2:
  "2 \<le> length buf \<Longrightarrow> Option.bind (slice buf 0 2) BigEndian_Uint16 = Some (srcPort_of buf)"
proof -
  assume a: "2 \<le> length buf"
  then obtain b0 b1 rest where buf: "buf = b0 # b1 # rest"
    by (cases buf; simp; rename_tac x xs; case_tac xs; simp)
  show ?thesis unfolding buf
    by (simp add: slice_def srcPort_of_def or.commute)
qed

lemma slice_payload:
  "8 \<le> rd_n r \<Longrightarrow> rd_n r \<le> int (length (rd_buf r)) \<Longrightarrow>
   slice (rd_buf r) (int udpHeaderSize) (rd_n r) = Some (payload_of r)"
  by (simp add: slice_def udpHeaderSize_def payload_of_def)

lemma ex_read_facts:
  "rd_err example_read = None" "array_read example_read" "8 \<le> rd_n example_read"
  "dstPort_of (rd_buf example_read) = 4000" "srcPort_of (rd_buf example_read) = 5000"
  "payload_of example_read = [0xAA, 0xBB]"
  "AddrFromSlice (rd_src example_read) = Some (AddrFrom4 [127, 0, 0, 1])"
  by (simp_all add: example_read_def array_read_def dstPort_of_def srcPort_of_def payload_of_def
      AddrFromSlice_def nth_append)

lemma ex_conn_facts: "acceptPort_of False example_Conn = 4000"
  by (simp add: acceptPort_of_def example_Conn_def)

lemma body_no_panic:
  assumes "array_read r"
  shows "receiveDisco_body isIPV6 c r \<noteq> Panic"
proof -
  from assms have len: "length (rd_buf r) = 1500" and n: "rd_n r \<le> int (length (rd_buf r))"
    by (simp_all add: array_read_def)
  have d: "Option.bind (slice (rd_buf r) 2 4) BigEndian_Uint16 = Some (dstPort_of (rd_buf r))"
    using len by (simp add: slice_2_4)
  have s: "Option.bind (slice (rd_buf r) 0 2) BigEndian_Uint16 = Some (srcPort_of (rd_buf r))"
    using len by (simp add: slice_0_2)
  have p: "\<not> rd_n r < int udpHeaderSize \<Longrightarrow>
             slice (rd_buf r) (int udpHeaderSize) (rd_n r) = Some (payload_of r)"
    using n slice_payload [of r] by (simp add: udpHeaderSize_def)
  show ?thesis
    using p
    by (simp add: receiveDisco_body_def d s Let_def split_beta split: option.splits)
qed

lemma loop_no_panic:
  "list_all array_read rs \<Longrightarrow> receiveDisco isIPV6 c rs \<noteq> Panicked"
proof (induction rs arbitrary: c)
  case Nil
  then show ?case by simp
next
  case (Cons r rs)
  then have "receiveDisco_body isIPV6 c r \<noteq> Panic" by (simp add: body_no_panic)
  with Cons show ?case by (cases "receiveDisco_body isIPV6 c r") simp_all
qed

lemma body_return_only_on_error:
  "receiveDisco_body isIPV6 c r = Return c' \<Longrightarrow> rd_err r \<noteq> None"
  by (auto simp: receiveDisco_body_def Let_def split_beta split: option.splits if_splits)

lemma body_port_mismatch:
  assumes "rd_err r = None" and "array_read r" and "8 \<le> rd_n r"
    and "acceptPort_of isIPV6 c = 0 \<or> dstPort_of (rd_buf r) \<noteq> acceptPort_of isIPV6 c"
  shows "receiveDisco_body isIPV6 c r =
          Continue (port_drop isIPV6
             (if dstPort_of (rd_buf r) = 0 then logf c LogUnexpectedPort0 else c)
             (dstPort_of (rd_buf r)))"
proof -
  from assms(2) have len: "length (rd_buf r) = 1500"
    by (simp_all add: array_read_def)
  have d: "Option.bind (slice (rd_buf r) 2 4) BigEndian_Uint16 = Some (dstPort_of (rd_buf r))"
    using len by (simp add: slice_2_4)
  have n8: "\<not> rd_n r < int udpHeaderSize" using assms(3) by (simp add: udpHeaderSize_def)
  show ?thesis
    using assms(1,4) n8
    by (cases isIPV6)
       (auto simp add: receiveDisco_body_def d acceptPort_of_def pconn6_Port_def pconn4_Port_def
          port_drop_def logf_def dlogf_def Let_def)
qed

text \<open>
  Claim C4. A successful read of at least 8 bytes into the buffer, whose destination
  port is the non-zero port bound for the family and whose source is a valid IP
  address: the loop continues, the handler has been called exactly once more, with the
  bytes from offset 8 to \<open>n\<close>, the source address with the source port of bytes 0-1
  and the zero key; the IPv4 counter has grown by one when the source address is IPv4
  and the IPv6 counter otherwise, and the other counter is unchanged.
\<close>

theorem receiveDisco_dispatches_once:
  assumes "rd_err r = None" and "array_read r" and "8 \<le> rd_n r"
    and "acceptPort_of isIPV6 c \<noteq> 0" and "dstPort_of (rd_buf r) = acceptPort_of isIPV6 c"
    and "AddrFromSlice (rd_src r) = Some srcIP"
  shows "receiveDisco_body isIPV6 c r =
           Continue (c\<lparr> Port_calls := Port_calls c @ [isIPV6],
                        metricRecvDiscoPacketIPv4 :=
                          metricRecvDiscoPacketIPv4 c + (if Is4 srcIP then 1 else 0),
                        metricRecvDiscoPacketIPv6 :=
                          metricRecvDiscoPacketIPv6 c + (if Is4 srcIP then 0 else 1),
                        handleDiscoMessage_calls :=
                          handleDiscoMessage_calls c @
                            [(payload_of r, AddrPortFrom srcIP (srcPort_of (rd_buf r)), zeroNodePublic)] \<rparr>)"
proof -
  from assms(2) have len: "length (rd_buf r) = 1500" and n: "rd_n r \<le> int (length (rd_buf r))"
    by (simp_all add: array_read_def)
  have d: "Option.bind (slice (rd_buf r) 2 4) BigEndian_Uint16 = Some (dstPort_of (rd_buf r))"
    using len by (simp add: slice_2_4)
  have s: "Option.bind (slice (rd_buf r) 0 2) BigEndian_Uint16 = Some (srcPort_of (rd_buf r))"
    using len by (simp add: slice_0_2)
  have p: "slice (rd_buf r) (int udpHeaderSize) (rd_n r) = Some (payload_of r)"
    using assms(3) n by (rule slice_payload)
  have n8: "\<not> rd_n r < int udpHeaderSize" using assms(3) by (simp add: udpHeaderSize_def)
  show ?thesis
    using assms(1,4,5,6) n8
    by (cases isIPV6)
       (simp_all add: receiveDisco_body_def d s p acceptPort_of_def pconn6_Port_def pconn4_Port_def
          handleDiscoMessage_def Let_def)
qed

theorem receiveDisco_dispatches_once_witness:
  "receiveDisco_body False example_Conn example_read =
     Continue (example_Conn\<lparr> Port_calls := [False], metricRecvDiscoPacketIPv4 := 1,
        handleDiscoMessage_calls :=
          [([0xAA, 0xBB], AddrPortFrom (AddrFrom4 [127, 0, 0, 1]) 5000, zeroNodePublic)]\<rparr>)"
  using receiveDisco_dispatches_once [of example_read False example_Conn "AddrFrom4 [127, 0, 0, 1]"]
  by (simp add: ex_read_facts ex_conn_facts) (simp add: example_Conn_def)

text \<open>
  Claim C6. A successful read of fewer than 8 bytes leaves the state as it was (no
  handler call, no counter, no port lookup, no log line), whatever the buffer holds,
  and the loop goes on with the next read. Whether the read succeeded or not, a count
  below 8 means no handler call, no counter increment and no port lookup.
\<close>

theorem receiveDisco_drops_short_read:
  assumes "rd_n r < 8"
  shows "(rd_err r = None \<longrightarrow>
            receiveDisco_body isIPV6 c r = Continue c
            \<and> receiveDisco isIPV6 c (r # rs) = receiveDisco isIPV6 c rs)
       \<and> (\<exists>c'. (receiveDisco_body isIPV6 c r = Continue c' \<or> receiveDisco_body isIPV6 c r = Return c')
              \<and> handleDiscoMessage_calls c' = handleDiscoMessage_calls c
              \<and> metricRecvDiscoPacketIPv4 c' = metricRecvDiscoPacketIPv4 c
              \<and> metricRecvDiscoPacketIPv6 c' = metricRecvDiscoPacketIPv6 c
              \<and> Port_calls c' = Port_calls c)"
proof (cases "rd_err r")
  case None
  with assms have "receiveDisco_body isIPV6 c r = Continue c"
    by (simp add: receiveDisco_body_def udpHeaderSize_def)
  then show ?thesis by simp
next
  case (Some e)
  then have "receiveDisco_body isIPV6 c r =
               Return (if e = ErrClosed then c else logf c (LogRawReaderFailed e))"
    by (simp add: receiveDisco_body_def)
  with Some show ?thesis by (simp add: logf_def)
qed

theorem receiveDisco_drops_short_read_witness:
  "receiveDisco_body False example_Conn example_short_read = Continue example_Conn
   \<and> receiveDisco False example_Conn [example_short_read] = Waiting example_Conn"
proof -
  have "rd_n example_short_read < 8" "rd_err example_short_read = None"
    by (simp_all add: example_short_read_def)
  then show ?thesis
    using receiveDisco_drops_short_read [of example_short_read False example_Conn "[]"]
    by simp
qed

text \<open>
  Claim C8. For a read into the 1500-byte buffer with a count of at most 1500 the three
  slices the loop body takes (\<open>buf[:2]\<close>, \<open>buf[2:4]\<close> and, after the length check,
  \<open>buf[8:n]\<close>) are in bounds and the body does not panic: it continues or returns, and
  it returns only on a read error. The loop over any sequence of such reads does not
  panic.
\<close>

theorem receiveDisco_never_panics:
  "(array_read r \<longrightarrow>
      slice (rd_buf r) 0 2 \<noteq> None \<and> slice (rd_buf r) 2 4 \<noteq> None
      \<and> (8 \<le> rd_n r \<longrightarrow> slice (rd_buf r) (int udpHeaderSize) (rd_n r) \<noteq> None)
      \<and> receiveDisco_body isIPV6 c r \<noteq> Panic)
   \<and> (receiveDisco_body isIPV6 c r = Return c' \<longrightarrow> rd_err r \<noteq> None)
   \<and> (list_all array_read rs \<longrightarrow> receiveDisco isIPV6 c rs \<noteq> Panicked)"
proof -
  have "slice (rd_buf r) 0 2 \<noteq> None \<and> slice (rd_buf r) 2 4 \<noteq> None
        \<and> (8 \<le> rd_n r \<longrightarrow> slice (rd_buf r) (int udpHeaderSize) (rd_n r) \<noteq> None)"
    if "array_read r"
    using that by (simp add: array_read_def slice_def udpHeaderSize_def)
  then show ?thesis
    using body_no_panic [of r isIPV6 c] body_return_only_on_error [of isIPV6 c r c']
      loop_no_panic [of rs isIPV6 c]
    by blast
qed

theorem receiveDisco_never_panics_witness:
  "array_read example_read
   \<and> receiveDisco_body False example_Conn example_read \<noteq> Panic
   \<and> list_all array_read [example_short_read, example_port0_read, example_read, example_closed]
   \<and> receiveDisco False example_Conn
        [example_short_read, example_port0_read, example_read, example_closed] \<noteq> Panicked"
proof -
  have "list_all array_read [example_short_read, example_port0_read, example_read, example_closed]"
    by (simp add: array_read_def example_short_read_def example_port0_read_def example_read_def
        example_closed_def)
  then show ?thesis
    using receiveDisco_never_panics [of example_read False example_Conn example_Conn
        "[example_short_read, example_port0_read, example_read, example_closed]"]
    by simp
qed

text \<open>
  Claim C9. A successful read of at least 8 bytes whose destination port is zero is
  logged as unexpected and then goes through the port lookup and the port comparison:
  it is dropped there by the same step, with the same verbose log, as a packet for a
  non-zero port that is not the bound one (a bound port is never zero where the
  comparison is made, so port zero cannot reach the handler).
\<close>

theorem receiveDisco_port_zero_logged_not_dropped:
  assumes "rd_err r = None" and "array_read r" and "8 \<le> rd_n r"
  shows "(dstPort_of (rd_buf r) = 0 \<longrightarrow>
            receiveDisco_body isIPV6 c r =
              Continue (port_drop isIPV6 (logf c LogUnexpectedPort0) 0))
       \<and> (dstPort_of (rd_buf r) \<noteq> 0 \<and>
            (acceptPort_of isIPV6 c = 0 \<or> dstPort_of (rd_buf r) \<noteq> acceptPort_of isIPV6 c) \<longrightarrow>
            receiveDisco_body isIPV6 c r =
              Continue (port_drop isIPV6 c (dstPort_of (rd_buf r))))"
  using body_port_mismatch [OF assms, of isIPV6 c] by auto

theorem receiveDisco_port_zero_logged_not_dropped_witness:
  "dstPort_of (rd_buf example_port0_read) = 0
   \<and> receiveDisco_body False example_Conn example_port0_read =
       Continue (example_Conn\<lparr> logf_calls := [LogUnexpectedPort0], Port_calls := [False],
                                dlogf_calls := [DropPort 0] \<rparr>)"
proof -
  have f: "rd_err example_port0_read = None" "array_read example_port0_read"
    "8 \<le> rd_n example_port0_read" "dstPort_of (rd_buf example_port0_read) = 0"
    by (simp_all add: example_port0_read_def array_read_def dstPort_of_def nth_append)
  show ?thesis
    using receiveDisco_port_zero_logged_not_dropped [OF f(1,2,3), of False example_Conn] f(4)
    by (simp add: port_drop_def logf_def dlogf_def acceptPort_of_def example_Conn_def)
qed

section \<open>The self-test\<close>

lemma listen_reaching_selftest:
  assumes "reaches_selftest m1 m2 e family"
  shows "listenRawDisco m1 m2 e c family =
     (case selftest_loop (ReadFrom_results e) of
        SelfTestFailed err \<Rightarrow>
          (Failed (ReadingDuringSelfTest err), setup_calls family @ [Close_pc, Close_tc], c)
      | SelfTestPanicked \<Rightarrow> (ListenPanicked, setup_calls family @ [Close_tc], c)
      | SelfTestWaiting \<Rightarrow> (ListenWaiting, setup_calls family, c)
      | SelfTestPassed \<Rightarrow>
          (Listening,
           setup_calls family @
             [SetReadDeadline_pc None, Go_receiveDisco (family = ''ip6''), Close_tc], c))"
  using assms
  by (auto simp: reaches_selftest_def listenRawDisco_def family_switch_def setup_calls_def
      JoinHostPort_def Let_def split: option.splits sum.splits selftest.splits if_splits)

lemma listen_go_only_when_listening:
  "listenRawDisco m1 m2 e c family = (out, t, c') \<Longrightarrow> Go_receiveDisco b \<in> set t \<Longrightarrow> out = Listening"
  by (auto simp: listenRawDisco_def Let_def
      split: option.splits sum.splits selftest.splits if_splits result.splits prod.splits)

lemma listen_Conn_unchanged:
  "snd (snd (listenRawDisco m1 m2 e c family)) = c"
  by (auto simp: listenRawDisco_def Let_def
      split: option.splits sum.splits selftest.splits if_splits result.splits prod.splits)

lemma length_testDiscoPacket: "length testDiscoPacket = 62"
  by (simp add: testDiscoPacket_def)

lemma selftest_step_skip: "skipped r \<Longrightarrow> selftest_loop (r # rs) = selftest_loop rs"
  using slice_payload [of r]
  by (auto simp: skipped_def udpHeaderSize_def)

lemma selftest_skip: "list_all skipped pre \<Longrightarrow> selftest_loop (pre @ rs) = selftest_loop rs"
  by (induction pre) (simp_all add: selftest_step_skip del: selftest_loop.simps(2))

lemma selftest_step_fail: "rd_err r = Some err \<Longrightarrow> selftest_loop (r # rs) = SelfTestFailed err"
  by simp

lemma selftest_step_pass: "is_test_packet r \<Longrightarrow> selftest_loop (r # rs) = SelfTestPassed"
  using slice_payload [of r]
  by (auto simp: is_test_packet_def udpHeaderSize_def)

lemma test_packet_is_70: "is_test_packet r \<Longrightarrow> rd_n r = 70"
proof -
  assume a: "is_test_packet r"
  then have n: "8 \<le> rd_n r" "rd_n r \<le> int (length (rd_buf r))"
    and eq: "payload_of r = testDiscoPacket"
    by (simp_all add: is_test_packet_def)
  have "length (payload_of r) = min (nat (rd_n r) - 8) (length (rd_buf r) - 8)"
    by (simp add: payload_of_def)
  then have "62 = min (nat (rd_n r) - 8) (length (rd_buf r) - 8)"
    by (simp only: eq length_testDiscoPacket)
  with n show ?thesis by linarith
qed

lemma from_elsewhere_payload:
  "length h = 8 \<Longrightarrow> 8 \<le> length (rd_buf r) \<Longrightarrow>
     payload_of (from_elsewhere s h r) = payload_of r
     \<and> length (rd_buf (from_elsewhere s h r)) = length (rd_buf r)
     \<and> rd_n (from_elsewhere s h r) = rd_n r \<and> rd_err (from_elsewhere s h r) = rd_err r"
  by (simp add: from_elsewhere_def payload_of_def)

lemma from_elsewhere_test:
  "length h = 8 \<Longrightarrow> 8 \<le> length (rd_buf r) \<Longrightarrow>
     is_test_packet (from_elsewhere s h r) = is_test_packet r"
  using from_elsewhere_payload [of h r s] by (simp add: is_test_packet_def)

lemma ex_facts:
  "is_test_packet example_test_read" "skipped example_read" "skipped example_short_read"
  "rd_err example_timeout = Some ErrDeadlineExceeded"
proof -
  have "length [0xAA, 0xBB :: byte] \<noteq> length testDiscoPacket"
    by (simp add: length_testDiscoPacket)
  then have "[0xAA, 0xBB] \<noteq> testDiscoPacket" by metis
  then show "skipped example_read"
    by (simp add: skipped_def example_read_def payload_of_def)
qed (simp_all add: is_test_packet_def skipped_def example_test_read_def
      example_short_read_def example_timeout_def payload_of_def length_testDiscoPacket)

lemma ex_env: "reaches_selftest m1 m2 (example_env rs) ''ip4''" "reaches_selftest m1 m2 (example_env rs) ''ip6''"
  by (simp_all add: reaches_selftest_def example_env_def family_switch_def setBPF_def
      magicsockFilterV4_def magicsockFilterV6_def)

text \<open>
  Claim C5. When every step before the self-test has succeeded and the reads before
  \<open>r\<close> were passed over: if the read \<open>r\<close> fails (a deadline timeout is such an
  error), \<open>listenRawDisco\<close> returns the error, having closed the raw socket and
  started no receive loop; if \<open>r\<close> is the test packet, it returns the socket, having
  reset the read deadline to the zero time and only then started the receive loop,
  and the raw socket is not closed.
\<close>

theorem listenRawDisco_selftest_outcomes:
  assumes "reaches_selftest m1 m2 e family"
    and "ReadFrom_results e = pre @ r # post" and "list_all skipped pre"
  shows "(rd_err r = Some err \<longrightarrow>
            listenRawDisco m1 m2 e c family =
              (Failed (ReadingDuringSelfTest err), setup_calls family @ [Close_pc, Close_tc], c)
            \<and> Close_pc \<in> set (fst (snd (listenRawDisco m1 m2 e c family)))
            \<and> Go_receiveDisco b \<notin> set (fst (snd (listenRawDisco m1 m2 e c family))))
       \<and> (is_test_packet r \<longrightarrow>
            listenRawDisco m1 m2 e c family =
              (Listening,
               setup_calls family @
                 [SetReadDeadline_pc None, Go_receiveDisco (family = ''ip6''), Close_tc], c)
            \<and> occurs_before (SetReadDeadline_pc None) (Go_receiveDisco (family = ''ip6''))
                 (fst (snd (listenRawDisco m1 m2 e c family)))
            \<and> Close_pc \<notin> set (fst (snd (listenRawDisco m1 m2 e c family))))"
proof -
  have loop: "selftest_loop (ReadFrom_results e) = selftest_loop (r # post)"
    using assms(2,3) by (simp add: selftest_skip)
  have "listenRawDisco m1 m2 e c family =
          (Failed (ReadingDuringSelfTest err), setup_calls family @ [Close_pc, Close_tc], c)"
    if "rd_err r = Some err"
    using selftest_step_fail [OF that, of post]
    by (simp add: listen_reaching_selftest [OF assms(1)] loop del: selftest_loop.simps)
  moreover have "listenRawDisco m1 m2 e c family =
          (Listening,
           setup_calls family @
             [SetReadDeadline_pc None, Go_receiveDisco (family = ''ip6''), Close_tc], c)"
    if "is_test_packet r"
    using selftest_step_pass [OF that, of post]
    by (simp add: listen_reaching_selftest [OF assms(1)] loop del: selftest_loop.simps)
  ultimately show ?thesis
    by (auto simp: setup_calls_def occurs_before_def)
qed

theorem listenRawDisco_selftest_outcomes_witness:
  "listenRawDisco 0x5453f09f 0x92ac (example_env [example_read, example_timeout]) example_Conn ''ip4'' =
     (Failed (ReadingDuringSelfTest ErrDeadlineExceeded),
      setup_calls ''ip4'' @ [Close_pc, Close_tc], example_Conn)
   \<and> listenRawDisco 0x5453f09f 0x92ac (example_env [example_read, example_test_read]) example_Conn ''ip6'' =
     (Listening,
      setup_calls ''ip6'' @ [SetReadDeadline_pc None, Go_receiveDisco True, Close_tc], example_Conn)"
proof -
  have r: "ReadFrom_results (example_env [example_read, example_timeout]) = [example_read] @ example_timeout # []"
    "ReadFrom_results (example_env [example_read, example_test_read]) = [example_read] @ example_test_read # []"
    by (simp_all add: example_env_def)
  have s: "list_all skipped [example_read]" by (simp add: ex_facts)
  show ?thesis
    using listenRawDisco_selftest_outcomes [OF ex_env(1) r(1) s,
        where err = ErrDeadlineExceeded and c = example_Conn and b = True]
      listenRawDisco_selftest_outcomes [OF ex_env(2) r(2) s,
        where err = ErrDeadlineExceeded and c = example_Conn and b = True]
    by (simp add: ex_facts)
qed

text \<open>
  Claim C10. The self-test loop succeeds at the first read whose bytes after the
  8-byte header are the test packet, whatever follows; such a read has exactly 70
  bytes; whether a read is accepted does not depend on its source address or on the
  8 header bytes; a successful read of at least 8 bytes with other bytes after the
  header is passed over; and \<open>listenRawDisco\<close> hands nothing to the handler: the
  \<open>Conn\<close> is as it was.
\<close>

theorem selftest_accepts_by_content:
  "(list_all skipped pre \<and> is_test_packet r \<longrightarrow> selftest_loop (pre @ r # post) = SelfTestPassed)
   \<and> (is_test_packet r \<longrightarrow> rd_n r = 70)
   \<and> (length h = 8 \<and> 8 \<le> length (rd_buf r) \<longrightarrow>
        is_test_packet (from_elsewhere s h r) = is_test_packet r)
   \<and> (rd_err r = None \<and> 8 \<le> rd_n r \<and> rd_n r \<le> int (length (rd_buf r))
        \<and> payload_of r \<noteq> testDiscoPacket \<longrightarrow> selftest_loop (r # rs) = selftest_loop rs)
   \<and> snd (snd (listenRawDisco m1 m2 e c family)) = c"
proof -
  have "selftest_loop (pre @ r # post) = SelfTestPassed" if "list_all skipped pre" "is_test_packet r"
    using that selftest_step_pass [of r post] by (simp add: selftest_skip del: selftest_loop.simps)
  moreover have "selftest_loop (r # rs) = selftest_loop rs"
    if "rd_err r = None \<and> 8 \<le> rd_n r \<and> rd_n r \<le> int (length (rd_buf r))
        \<and> payload_of r \<noteq> testDiscoPacket"
    using that selftest_step_skip [of r rs] by (simp add: skipped_def)
  ultimately show ?thesis
    using test_packet_is_70 [of r] from_elsewhere_test [of h r s]
      listen_Conn_unchanged [of m1 m2 e c family]
    by blast
qed

theorem selftest_accepts_by_content_witness:
  "selftest_loop [example_short_read, example_read, example_test_read, example_timeout] = SelfTestPassed
   \<and> rd_n example_test_read = 70
   \<and> is_test_packet (from_elsewhere [192, 168, 0, 1] [0, 1, 0, 2, 0, 0x46, 0, 0] example_test_read)
   \<and> selftest_loop [example_read, example_timeout] = SelfTestFailed ErrDeadlineExceeded"
proof -
  have s: "list_all skipped [example_short_read, example_read]" by (simp add: ex_facts)
  have l: "length [0, 1, 0, 2, 0, 0x46, 0, 0 :: byte] = 8" "8 \<le> length (rd_buf example_test_read)"
    by (simp_all add: example_test_read_def)
  have e: "rd_err example_read = None \<and> 8 \<le> rd_n example_read
       \<and> rd_n example_read \<le> int (length (rd_buf example_read))
       \<and> payload_of example_read \<noteq> testDiscoPacket"
    using ex_facts(2) by (simp add: skipped_def example_read_def)
  have t: "selftest_loop [example_timeout] = SelfTestFailed ErrDeadlineExceeded"
    by (simp add: example_timeout_def)
  show ?thesis
    using selftest_accepts_by_content [of "[example_short_read, example_read]" example_test_read
        "[example_timeout]" "[0, 1, 0, 2, 0, 0x46, 0, 0]" "[192, 168, 0, 1]" "[example_timeout]"]
      selftest_accepts_by_content [of "[]" example_read "[]" "[]" "[]" "[example_timeout]"]
      s l e t ex_facts(1)
    by simp
qed

end
